theory Spec2Isabelle
  imports Complex_Main "HOL-Library.Sublist"
begin

section \<open>Python values\<close>

text \<open>
  A Python \<open>str\<close> is a \<open>string\<close>: one \<open>char\<close> per code point, so the model covers
  the code points below 256 (ASCII and Latin-1, which hold every literal of the source).
  An \<open>Optional[str]\<close> is a \<open>string option\<close>; Python's \<open>int\<close> is \<open>int\<close>.
  Exceptions are values of \<open>error\<close>, and a function that can raise returns
  \<open>error + 'a\<close> with \<open>Inl\<close> for the raised exception.
\<close>

datatype error =
    ValueError string
  | ZeroDivisionError
  | OSError string
  | ScraperError string
  | CaptchaError string
  | RateLimitError int

text \<open>Truthiness of an \<open>Optional[str]\<close>: \<open>None\<close> and the empty string are falsy.\<close>

fun truthy :: "string option \<Rightarrow> bool" where
  "truthy None = False"
| "truthy (Some s) = (s \<noteq> [])"

text \<open>\<open>s.startswith(p)\<close>, comparing character by character and stopping at the first difference.\<close>

fun startswith :: "string \<Rightarrow> string \<Rightarrow> bool" where
  "startswith s [] = True"
| "startswith [] (x # xs) = False"
| "startswith (y # ys) (x # xs) = (if x = y then startswith ys xs else False)"

text \<open>\<open>p in s\<close> on strings: \<open>p\<close> occurs in \<open>s\<close> as a contiguous run.\<close>

fun py_in :: "string \<Rightarrow> string \<Rightarrow> bool" where
  "py_in p [] = (p = [])"
| "py_in p (c # cs) = (if startswith (c # cs) p then True else py_in p cs)"

text \<open>\<open>str(n)\<close> for an integer: decimal digits, a minus sign when negative.\<close>

definition digit_char :: "nat \<Rightarrow> char" where
  "digit_char d = ''0123456789'' ! (d mod 10)"

fun str_nat :: "nat \<Rightarrow> string" where
  "str_nat n = (if n < 10 then [digit_char n] else str_nat (n div 10) @ [digit_char (n mod 10)])"

definition str_int :: "int \<Rightarrow> string" where
  "str_int i = (if i < 0 then CHR ''-'' # str_nat (nat (- i)) else str_nat (nat i))"

section \<open>config.py\<close>

definition BASE_URL :: string where
  "BASE_URL = ''https://empresite.eleconomista.es''"

definition REQUEST_DELAY_MIN :: real where
  "REQUEST_DELAY_MIN = 5"

definition REQUEST_DELAY_MAX :: real where
  "REQUEST_DELAY_MAX = 10"

definition MAX_RETRIES :: nat where
  "MAX_RETRIES = 4"

definition RETRY_BACKOFF_BASE :: int where
  "RETRY_BACKOFF_BASE = 30"

definition RESULTS_PER_PAGE :: int where
  "RESULTS_PER_PAGE = 30"

definition SAVE_EVERY_N :: nat where
  "SAVE_EVERY_N = 10"

section \<open>models.py\<close>

record Empresa =
  razon_social :: string
  cif :: string
  forma_juridica :: string
  url_ficha :: string
  sector :: string
  actividad :: string
  cnae :: string
  objeto_social :: string
  estado :: string
  fecha_constitucion :: string
  direccion :: string
  telefono :: string
  email :: string
  web :: string
  ventas :: string
  num_empleados :: string
  participaciones :: string
  operaciones_internacionales :: string
  grupo_sector :: string
  cotiza_bolsa :: string

text \<open>\<open>Empresa(url_ficha=url)\<close>: every other field takes its default, the empty string.\<close>

definition Empresa_new :: "string \<Rightarrow> Empresa" where
  "Empresa_new url =
     \<lparr> razon_social = [], cif = [], forma_juridica = [], url_ficha = url,
       sector = [], actividad = [], cnae = [], objeto_social = [], estado = [],
       fecha_constitucion = [], direccion = [], telefono = [], email = [], web = [],
       ventas = [], num_empleados = [], participaciones = [],
       operaciones_internacionales = [], grupo_sector = [], cotiza_bolsa = [] \<rparr>"

text \<open>
  \<open>ScrapeProgress\<close>: the entries of \<open>empresas_error\<close> are the dictionaries
  \<open>{"url": url, "error": error}\<close>, kept as pairs (url, error).
\<close>

record ScrapeProgress =
  total_esperado :: int
  empresas_ok :: "Empresa list"
  empresas_error :: "(string \<times> string) list"

definition ScrapeProgress_new :: ScrapeProgress where
  "ScrapeProgress_new = \<lparr> total_esperado = 0, empresas_ok = [], empresas_error = [] \<rparr>"

definition total_procesadas :: "ScrapeProgress \<Rightarrow> int" where
  "total_procesadas p = int (length (empresas_ok p)) + int (length (empresas_error p))"

text \<open>
  \<open>a / b\<close> on integers: true division, which raises on a zero divisor. The float
  result is idealised as a real number.
\<close>

definition py_truediv :: "int \<Rightarrow> int \<Rightarrow> error + real" where
  "py_truediv a b = (if b = 0 then Inl ZeroDivisionError else Inr (real_of_int a / real_of_int b))"

definition tasa_exito :: "ScrapeProgress \<Rightarrow> error + real" where
  "tasa_exito p =
     (if total_procesadas p = 0 then Inr 0
      else (case py_truediv (int (length (empresas_ok p))) (total_procesadas p) of
              Inl e \<Rightarrow> Inl e
            | Inr q \<Rightarrow> Inr (q * 100)))"

definition add_success :: "ScrapeProgress \<Rightarrow> Empresa \<Rightarrow> ScrapeProgress" where
  "add_success p empresa = p\<lparr> empresas_ok := empresas_ok p @ [empresa] \<rparr>"

definition add_error :: "ScrapeProgress \<Rightarrow> string \<Rightarrow> string \<Rightarrow> ScrapeProgress" where
  "add_error p url err = p\<lparr> empresas_error := empresas_error p @ [(url, err)] \<rparr>"

section \<open>url\_builder.py\<close>

text \<open>
  The list \<open>parts\<close> that \<open>build_listing_url\<close> fills before joining it: the base URL,
  the activity segment when an activity is given, then the locality segment, or else
  the province segment.
\<close>

definition listing_parts :: "string option \<Rightarrow> string option \<Rightarrow> string option \<Rightarrow> string list" where
  "listing_parts actividad_slug provincia_slug localidad_slug =
     [BASE_URL]
     @ (if truthy actividad_slug then [''/Actividad/'' @ the actividad_slug] else [])
     @ (if truthy localidad_slug then [''/localidad/'' @ the localidad_slug]
        else if truthy provincia_slug then [''/provincia/'' @ the provincia_slug]
        else [])"

text \<open>The segments a part of the URL can be, told by their fixed prefixes.\<close>

definition is_locality_part :: "string \<Rightarrow> bool" where
  "is_locality_part s = prefix ''/localidad/'' s"

definition is_province_part :: "string \<Rightarrow> bool" where
  "is_province_part s = prefix ''/provincia/'' s"

definition is_location_part :: "string \<Rightarrow> bool" where
  "is_location_part s = (is_locality_part s \<or> is_province_part s)"

definition no_filter_msg :: string where
  "no_filter_msg = ''Debe especificar al menos un filtro (actividad, provincia o localidad)''"

definition build_listing_url ::
  "string option \<Rightarrow> string option \<Rightarrow> string option \<Rightarrow> int \<Rightarrow> error + string" where
  "build_listing_url actividad_slug provincia_slug localidad_slug page =
     (if \<not> (truthy actividad_slug \<or> truthy provincia_slug \<or> truthy localidad_slug)
      then Inl (ValueError no_filter_msg)
      else
        let url = concat (listing_parts actividad_slug provincia_slug localidad_slug) @ ''/''
        in Inr (if page > 1 then url @ ''PgNum-'' @ str_int page @ ''/'' else url))"

definition build_company_url :: "string \<Rightarrow> string" where
  "build_company_url slug = (if startswith slug ''http'' then slug else BASE_URL @ ''/'' @ slug)"

section \<open>parser.py\<close>

subsection \<open>Text helpers of the standard library\<close>

text \<open>
  Whitespace as \<open>str.isspace\<close>, \<open>str.strip\<close> and the regular expression class
  \<open>\s\<close> see it, and decimal digits as \<open>\d\<close> sees them, on the code points below 256.
\<close>

definition isspace :: "char \<Rightarrow> bool" where
  "isspace c = (c \<in> set [CHR 0x09, CHR 0x0A, CHR 0x0B, CHR 0x0C, CHR 0x0D, CHR 0x1C,
                          CHR 0x1D, CHR 0x1E, CHR 0x1F, CHR 0x20, CHR 0x85, CHR 0xA0])"

definition isdigit :: "char \<Rightarrow> bool" where
  "isdigit c = (c \<in> set ''0123456789'')"

text \<open>\<open>str.lower\<close>: on these code points it maps A-Z and the Latin-1 capitals, one by one.\<close>

definition lower_char :: "char \<Rightarrow> char" where
  "lower_char c =
     (let n = (of_char c :: nat)
      in if (65 \<le> n \<and> n \<le> 90) \<or> (192 \<le> n \<and> n \<le> 222 \<and> n \<noteq> 215)
         then char_of (n + 32) else c)"

definition lower :: "string \<Rightarrow> string" where
  "lower s = map lower_char s"

text \<open>\<open>s.strip()\<close>: whitespace removed at both ends.\<close>

definition strip :: "string \<Rightarrow> string" where
  "strip s = rev (dropWhile isspace (rev (dropWhile isspace s)))"

text \<open>\<open>re.sub(r"\s+", " ", text)\<close>: every maximal run of whitespace becomes one space.\<close>

function collapse_ws :: "string \<Rightarrow> string" where
  "collapse_ws [] = []"
| "collapse_ws (c # cs) =
     (if isspace c then CHR '' '' # collapse_ws (dropWhile isspace cs)
      else c # collapse_ws cs)"
  by pat_completeness auto
termination
  by (relation "measure length") (auto simp: length_dropWhile_le less_Suc_eq_le)

text \<open>\<open>sep.join(xs)\<close>.\<close>

fun py_join :: "string \<Rightarrow> string list \<Rightarrow> string" where
  "py_join sep [] = []"
| "py_join sep [x] = x"
| "py_join sep (x # y # ys) = x @ sep @ py_join sep (y # ys)"

text \<open>\<open>s.split(sep)[0]\<close>: the text before the first occurrence of \<open>sep\<close>.\<close>

fun split_first :: "string \<Rightarrow> string \<Rightarrow> string" where
  "split_first sep [] = []"
| "split_first sep (c # cs) = (if startswith (c # cs) sep then [] else c # split_first sep cs)"

text \<open>\<open>s.split()\<close>: the words of \<open>s\<close>, separated by runs of whitespace.\<close>

function py_words :: "string \<Rightarrow> string list" where
  "py_words s =
     (let t = dropWhile isspace s
      in if t = [] then []
         else takeWhile (\<lambda>c. \<not> isspace c) t # py_words (dropWhile (\<lambda>c. \<not> isspace c) t))"
  by pat_completeness auto
termination
proof (relation "measure length")
  fix s t :: string
  assume t: "t = dropWhile isspace s" and ne: "t \<noteq> []"
  from ne obtain c u where cu: "t = c # u" by (cases t) auto
  have "dropWhile isspace s \<noteq> []" using ne t by simp
  then have "\<not> isspace (hd (dropWhile isspace s))" by (rule hd_dropWhile)
  then have "\<not> isspace c" using t cu by (metis list.sel(1))
  then have "length (dropWhile (\<lambda>c. \<not> isspace c) t) \<le> length u"
    by (simp add: cu length_dropWhile_le)
  moreover have "length t \<le> length s" by (simp add: t length_dropWhile_le)
  ultimately show "(dropWhile (\<lambda>c. \<not> isspace c) t, s) \<in> measure length"
    by (simp add: cu)
qed simp

declare py_words.simps [simp del]

subsection \<open>The parsed page\<close>

text \<open>
  What \<open>BeautifulSoup(page_html, "lxml")\<close> returns: a tree of tags (name, attributes,
  children) and text nodes; the soup itself is the root tag. The \<open>class\<close> attribute,
  which bs4 keeps as a list of names, is kept as its text and split into words where it
  is matched. Equality of nodes is structural, as \<open>Tag.__eq__\<close> is.
\<close>

datatype node =
    Tag string "(string \<times> string) list" "node list"
  | NavigableString string

text \<open>
  The two library functions the parser is built on and that are not modelled further:
  the lxml parser behind \<open>BeautifulSoup\<close> and \<open>html.unescape\<close>. Every property below
  holds whatever they compute.
\<close>

record pylib =
  BeautifulSoup :: "string \<Rightarrow> node"
  unescape :: "string \<Rightarrow> string"

fun is_tag :: "node \<Rightarrow> bool" where
  "is_tag (Tag n a cs) = True"
| "is_tag (NavigableString s) = False"

fun is_tag_named :: "string \<Rightarrow> node \<Rightarrow> bool" where
  "is_tag_named name (Tag n a cs) = (n = name)"
| "is_tag_named name (NavigableString s) = False"

text \<open>\<open>tag.get(key)\<close>.\<close>

fun get_attr :: "node \<Rightarrow> string \<Rightarrow> string option" where
  "get_attr (Tag n a cs) key = map_of a key"
| "get_attr (NavigableString s) key = None"

text \<open>\<open>get_text()\<close>: the text nodes below a node, concatenated in document order.\<close>

fun get_text :: "node \<Rightarrow> string" where
  "get_text (NavigableString s) = s"
| "get_text (Tag n a cs) = concat (map get_text cs)"

text \<open>The nodes below a node in document order, which \<open>find\<close> and \<open>find_all\<close> search.\<close>

fun descendants :: "node \<Rightarrow> node list" where
  "descendants (NavigableString s) = []"
| "descendants (Tag n a cs) = concat (map (\<lambda>c. c # descendants c) cs)"

definition soup_find :: "(node \<Rightarrow> bool) \<Rightarrow> node \<Rightarrow> node option" where
  "soup_find P nd = find P (descendants nd)"

definition soup_find_all :: "(node \<Rightarrow> bool) \<Rightarrow> node \<Rightarrow> node list" where
  "soup_find_all P nd = filter P (descendants nd)"

text \<open>
  Every \<open>h3\<close> of \<open>soup.find_all("h3")\<close>, in document order, with what the extraction
  reads around it: its next siblings and the children of its parent.
\<close>

record h3_site =
  h3 :: node
  next_siblings :: "node list"
  parent_children :: "node list"

fun find_h3 :: "node \<Rightarrow> h3_site list"
  and find_h3_in :: "node list \<Rightarrow> node list \<Rightarrow> h3_site list" where
  "find_h3 (NavigableString s) = []"
| "find_h3 (Tag n a cs) = find_h3_in cs cs"
| "find_h3_in par [] = []"
| "find_h3_in par (c # rest) =
     (if is_tag_named ''h3'' c
      then [\<lparr> h3 = c, next_siblings = rest, parent_children = par \<rparr>] else [])
     @ find_h3 c @ find_h3_in par rest"

subsection \<open>Field extraction\<close>

definition clean_text :: "pylib \<Rightarrow> string \<Rightarrow> string" where
  "clean_text L text_in =
     (if text_in = [] then [] else strip (collapse_ws (unescape L text_in)))"

definition placeholders :: "string list" where
  "placeholders = [''a'' @ [CHR 0xF1] @ ''adir'', ''agregar'', ''no disponible'', ''no consta'']"

definition is_placeholder :: "string \<Rightarrow> bool" where
  "is_placeholder text_in = list_ex (\<lambda>p. py_in p (lower text_in)) placeholders"

text \<open>
  The body of the loop of \<open>_extract_field_value\<close> for one matching \<open>h3\<close>. First the
  next sibling tag (\<open>find_next_sibling()\<close>): its cleaned text is returned when it is
  not empty and no placeholder.
\<close>

definition sibling_value :: "pylib \<Rightarrow> h3_site \<Rightarrow> string option" where
  "sibling_value L site =
     (case find is_tag (next_siblings site) of
        None \<Rightarrow> None
      | Some sibling \<Rightarrow>
          let v = clean_text L (get_text sibling)
          in if v \<noteq> [] \<and> \<not> is_placeholder v then Some v else None)"

text \<open>
  Then the parent: the cleaned texts of its children other than the \<open>h3\<close>, those
  that are empty or a placeholder dropped, joined by a space. (A text node never equals
  the \<open>h3\<close>; its cleaned text is appended by the first or by the second branch of the
  source, depending on whether the text node has \<open>get_text\<close>, and an empty one is
  dropped by the join's filter either way.)
\<close>

definition parent_texts :: "pylib \<Rightarrow> h3_site \<Rightarrow> string list" where
  "parent_texts L site =
     concat (map (\<lambda>child.
        if is_tag child then (if child \<noteq> h3 site then [clean_text L (get_text child)] else [])
        else [clean_text L (get_text child)]) (parent_children site))"

definition parent_value :: "pylib \<Rightarrow> h3_site \<Rightarrow> string option" where
  "parent_value L site =
     (let v = py_join '' '' (filter (\<lambda>t. t \<noteq> [] \<and> \<not> is_placeholder t) (parent_texts L site))
      in if v \<noteq> [] then Some v else None)"

fun field_from_sites :: "pylib \<Rightarrow> string \<Rightarrow> h3_site list \<Rightarrow> string" where
  "field_from_sites L field_label [] = []"
| "field_from_sites L field_label (site # sites) =
     (if py_in (lower field_label) (lower (clean_text L (get_text (h3 site))))
      then (case sibling_value L site of
              Some v \<Rightarrow> v
            | None \<Rightarrow>
               (case parent_value L site of
                  Some v \<Rightarrow> v
                | None \<Rightarrow> field_from_sites L field_label sites))
      else field_from_sites L field_label sites)"

definition extract_field_value :: "pylib \<Rightarrow> node \<Rightarrow> string \<Rightarrow> string" where
  "extract_field_value L soup field_label = field_from_sites L field_label (find_h3 soup)"

text \<open>\<open>x = first; if not x: x = second\<close>.\<close>

definition or_else :: "string \<Rightarrow> string \<Rightarrow> string" where
  "or_else first second = (if first = [] then second else first)"

text \<open>The fallback of the company name: the page title up to \<open>" - "\<close>.\<close>

definition title_name :: "pylib \<Rightarrow> node \<Rightarrow> string" where
  "title_name L soup =
     (case soup_find (is_tag_named ''title'') soup of
        None \<Rightarrow> []
      | Some title \<Rightarrow>
          let title_text = clean_text L (get_text title)
          in if py_in '' - '' title_text then strip (split_first '' - '' title_text) else [])"

text \<open>The fallback of the address: the element marked \<open>itemprop="address"\<close>.\<close>

definition address_text :: "pylib \<Rightarrow> node \<Rightarrow> string" where
  "address_text L soup =
     (case soup_find (\<lambda>d. get_attr d ''itemprop'' = Some ''address'') soup of
        None \<Rightarrow> []
      | Some addr \<Rightarrow> clean_text L (get_text addr))"

definition parse_company_page :: "pylib \<Rightarrow> string \<Rightarrow> string \<Rightarrow> Empresa" where
  "parse_company_page L page_html url =
     (let soup = BeautifulSoup L page_html;
          field = extract_field_value L soup;
          web0 = or_else (field ''Web'') (field (''P'' @ [CHR 0xE1] @ ''gina web''))
      in (Empresa_new url)
         \<lparr> razon_social :=
             or_else (or_else (field (''Raz'' @ [CHR 0xF3] @ ''n social''))
                              (field (''Raz'' @ [CHR 0xF3] @ ''n Social'')))
                     (title_name L soup),
           cif := field ''CIF'',
           forma_juridica := field ''Forma jur'',
           sector := field ''Sector'',
           fecha_constitucion := field ''Fecha de constituci'',
           objeto_social := field ''Objeto social'',
           actividad := or_else (field ''Actividad CNAE'') (field ''Actividad''),
           cnae := field ''CNAE'',
           estado := field ''Estado'',
           direccion := or_else (field ''Direcci'') (address_text L soup),
           telefono := or_else (field (''Tel'' @ [CHR 0xE9] @ ''fono'')) (field ''Tel''),
           email := or_else (field ''Email'') (field ''Correo''),
           web := (if web0 \<noteq> [] \<and> is_placeholder web0 then [] else web0),
           ventas :=
             or_else (or_else (field ''ventas'') (field (''Facturaci'' @ [CHR 0xF3] @ ''n'')))
                     (field (''Evoluci'' @ [CHR 0xF3] @ ''n de ventas'')),
           num_empleados :=
             or_else (field ''empleados'') (field (''N'' @ [CHR 0xFA] @ ''mero de empleados'')),
           participaciones := field ''Participaciones'',
           operaciones_internacionales := field ''Operaciones Internacional'',
           grupo_sector := field ''Grupo Sector'',
           cotiza_bolsa := field ''Cotiza'' \<rparr>)"

subsection \<open>The result count\<close>

text \<open>
  \<open>re.search(pattern, text)\<close> tries the pattern at every start position, from the
  left, and stops at the first that matches. The two patterns of \<open>parse_result_count\<close>
  are sequences of character classes that exclude one another (digits, whitespace) and
  literals, all quantifiers greedy, so an attempt at a position matches exactly when
  taking each run as long as it goes matches, and the group is the whole digit run.
\<close>

fun re_search :: "(string \<Rightarrow> 'a option) \<Rightarrow> string \<Rightarrow> 'a option" where
  "re_search m [] = m []"
| "re_search m (c # cs) = (case m (c # cs) of Some g \<Rightarrow> Some g | None \<Rightarrow> re_search m cs)"

text \<open>\<open>(\d+)\s*empresas?\<close> tried at the start of \<open>s\<close>; the result is group 1.\<close>

definition match_count_at :: "string \<Rightarrow> string option" where
  "match_count_at s =
     (let ds = takeWhile isdigit s;
          r = dropWhile isspace (dropWhile isdigit s)
      in if ds \<noteq> [] \<and> prefix ''empresa'' r then Some ds else None)"

text \<open>\<open>Hemos encontrado\s+(\d+)\s+empresas?\<close> tried at the start of \<open>s\<close>.\<close>

definition match_found_at :: "string \<Rightarrow> string option" where
  "match_found_at s =
     (if prefix ''Hemos encontrado'' s
      then
        let r1 = drop (length ''Hemos encontrado'') s;
            r2 = dropWhile isspace r1;
            ds = takeWhile isdigit r2;
            r3 = dropWhile isdigit r2;
            r4 = dropWhile isspace r3
        in if takeWhile isspace r1 \<noteq> [] \<and> ds \<noteq> [] \<and> takeWhile isspace r3 \<noteq> []
              \<and> prefix ''empresa'' r4
           then Some ds else None
      else None)"

text \<open>\<open>int(s)\<close> on a string of decimal digits.\<close>

definition digit_val :: "char \<Rightarrow> int" where
  "digit_val c = int (of_char c) - 48"

definition int_of_digits :: "string \<Rightarrow> int" where
  "int_of_digits ds = foldl (\<lambda>acc c. 10 * acc + digit_val c) 0 ds"

definition find_numresultados :: "node \<Rightarrow> node option" where
  "find_numresultados soup = soup_find (\<lambda>d. get_attr d ''id'' = Some ''filter-numresultados'') soup"

definition parse_result_count :: "pylib \<Rightarrow> string \<Rightarrow> int" where
  "parse_result_count L page_html =
     (let soup = BeautifulSoup L page_html;
          in_filter =
            (case find_numresultados soup of
               None \<Rightarrow> None
             | Some filter_text \<Rightarrow> re_search match_count_at (get_text filter_text))
      in case in_filter of
           Some ds \<Rightarrow> int_of_digits ds
         | None \<Rightarrow>
            (case re_search match_found_at (get_text soup) of
               Some ds \<Rightarrow> int_of_digits ds
             | None \<Rightarrow> 0))"



subsection \<open>Listing pages\<close>

text \<open>\<open>class_="cardCompanyBox"\<close>: one of the names of the \<open>class\<close> attribute, or all of it.\<close>

definition has_class :: "string \<Rightarrow> node \<Rightarrow> bool" where
  "has_class name d =
     (case get_attr d ''class'' of
        None \<Rightarrow> False
      | Some v \<Rightarrow> name \<in> set (py_words v) \<or> py_join '' '' (py_words v) = name)"

definition endswith :: "string \<Rightarrow> string \<Rightarrow> bool" where
  "endswith s suf = suffix suf s"

definition absolute :: "string \<Rightarrow> string" where
  "absolute url = (if startswith url ''http'' then url else ''https://empresite.eleconomista.es'' @ url)"

text \<open>
  The body of the loop over the cards, that is the URLs one card contributes: the
  \<open>content\<close> of its \<open>meta\<close> marked \<open>itemprop="url"\<close>, or else the link of its
  \<open>h3\<close> when that ends in \<open>.html\<close>.
\<close>

definition card_urls :: "node \<Rightarrow> string list" where
  "card_urls crd =
     (let meta_content =
            (case soup_find (\<lambda>d. is_tag_named ''meta'' d \<and> get_attr d ''itemprop'' = Some ''url'') crd of
               None \<Rightarrow> None
             | Some meta_url \<Rightarrow> get_attr meta_url ''content'')
      in if truthy meta_content then [absolute (the meta_content)]
         else
           (case soup_find (is_tag_named ''h3'') crd of
              None \<Rightarrow> []
            | Some h \<Rightarrow>
               (case soup_find (\<lambda>d. is_tag_named ''a'' d \<and> get_attr d ''href'' \<noteq> None) h of
                  None \<Rightarrow> []
                | Some link \<Rightarrow>
                    let href = the (get_attr link ''href'')
                    in if endswith href ''.html'' then [absolute href] else [])))"

definition parse_listing_page :: "pylib \<Rightarrow> string \<Rightarrow> string list" where
  "parse_listing_page L page_html =
     concat (map card_urls
       (soup_find_all (\<lambda>d. is_tag_named ''div'' d \<and> has_class ''cardCompanyBox'' d)
          (BeautifulSoup L page_html)))"

section \<open>scraper.py\<close>

subsection \<open>The world outside the process\<close>

text \<open>
  What \<open>session.get(url, timeout=30)\<close> can do: return a response, or raise a
  \<open>requests.RequestException\<close> (timeout, connection error) with a message. Of a
  response the scraper reads the status code, the body, the reason phrase (in the
  message of \<open>raise_for_status\<close>) and the \<open>Retry-After\<close> header, which is kept as
  \<open>int(...)\<close> reads it: missing, a number, or a text that \<open>int\<close> rejects.
\<close>

datatype header_value = Missing | Number int | Malformed string

record response =
  status_code :: int
  body :: string
  reason :: string
  retry_after :: header_value

datatype outcome = Response response | RequestException string

text \<open>
  The environment of a run: the outcome of the k-th call of \<open>session.get\<close> (it may
  depend on the URL), the k-th value of \<open>random.random()\<close>, and whether the k-th call
  of \<open>save_to_json\<close> fails (with the message of its \<open>OSError\<close>). Theorems quantify
  over the environment, so they hold for every behaviour of the site and the disk.
\<close>

record env =
  world :: "nat \<Rightarrow> string \<Rightarrow> outcome"
  rnd :: "nat \<Rightarrow> real"
  save_error :: "nat \<Rightarrow> string option"

text \<open>
  What an observer of the process sees, in order: a request (with the politeness delay
  slept right before it, if any), the response or the failure of the request, and a
  back-off sleep.
\<close>

datatype event =
    Request "real option" string
  | Response_received int
  | Request_failed string
  | Backoff int

text \<open>
  The state of an \<open>EmpresiteScraper\<close>: \<open>_request_count\<close>, the \<open>User-Agent\<close> header of
  the session and \<open>output_dir\<close>; then the bookkeeping of the model: how many calls,
  random draws and saves were made, the events so far, the files written and whether
  the session was closed.
\<close>

record scraper =
  request_count :: nat
  user_agent :: string
  output_dir :: string
  calls :: nat
  draws :: nat
  saves :: nat
  events :: "event list"
  files :: "string \<rightharpoonup> Empresa list"
  closed :: bool

definition GPTBOT_USER_AGENT :: string where
  "GPTBOT_USER_AGENT =
     ''Mozilla/5.0 AppleWebKit/537.36 (KHTML, like Gecko; compatible; GPTBot/1.2; +https://openai.com/gptbot)''"

definition CHATGPT_USER_AGENT :: string where
  "CHATGPT_USER_AGENT =
     ''Mozilla/5.0 AppleWebKit/537.36 (KHTML, like Gecko; compatible; ChatGPT-User/1.0; +https://openai.com/bot)''"

definition CAPTCHA_INDICATORS :: "string list" where
  "CAPTCHA_INDICATORS =
     [''demasiadas peticiones detectadas'', ''verificar que no es un robot'',
      ''resuelva el captcha'', ''too many requests detected'']"

definition detect_captcha :: "string \<Rightarrow> bool" where
  "detect_captcha html = list_ex (\<lambda>indicator. py_in indicator (lower html)) CAPTCHA_INDICATORS"

definition EmpresiteScraper :: "string \<Rightarrow> scraper" where
  "EmpresiteScraper dir =
     \<lparr> request_count = 0, user_agent = GPTBOT_USER_AGENT, output_dir = dir,
       calls = 0, draws = 0, saves = 0, events = [], files = Map.empty, closed = False \<rparr>"

text \<open>\<open>str(e)\<close> for the exceptions of the model.\<close>

fun str_error :: "error \<Rightarrow> string" where
  "str_error (ValueError msg) = msg"
| "str_error ZeroDivisionError = ''division by zero''"
| "str_error (OSError msg) = msg"
| "str_error (ScraperError msg) = msg"
| "str_error (CaptchaError url) = ''CAPTCHA detectado en: '' @ url"
| "str_error (RateLimitError n) = ''Rate limit. Reintentando en '' @ str_int n @ ''s''"

text \<open>\<open>except ScraperError\<close> also catches its subclasses.\<close>

fun is_ScraperError :: "error \<Rightarrow> bool" where
  "is_ScraperError (ScraperError msg) = True"
| "is_ScraperError (CaptchaError url) = True"
| "is_ScraperError (RateLimitError n) = True"
| "is_ScraperError e = False"

subsection \<open>Fetching a page\<close>

text \<open>\<open>random.uniform(a, b)\<close> is \<open>a + (b - a) * random()\<close>.\<close>

definition random_uniform :: "env \<Rightarrow> nat \<Rightarrow> real \<Rightarrow> real \<Rightarrow> real" where
  "random_uniform E k a b = a + (b - a) * rnd E k"

text \<open>
  The head of an attempt: \<open>_delay()\<close> when \<open>_request_count > 0\<close>, then
  \<open>session.get\<close>. It returns the outcome and the state after the call.
\<close>

definition session_get :: "env \<Rightarrow> scraper \<Rightarrow> string \<Rightarrow> outcome \<times> scraper" where
  "session_get E s url =
     (let delayed = (request_count s > 0);
          d = (if delayed
               then Some (random_uniform E (draws s) REQUEST_DELAY_MIN REQUEST_DELAY_MAX)
               else None);
          out = world E (calls s) url
      in (out,
          s\<lparr> draws := (if delayed then draws s + 1 else draws s),
             calls := calls s + 1,
             events := events s @ [Request d url,
                                   (case out of
                                      Response r \<Rightarrow> Response_received (status_code r)
                                    | RequestException msg \<Rightarrow> Request_failed msg)] \<rparr>))"

text \<open>\<open>time.sleep(t)\<close> for a back-off: a negative length raises \<open>ValueError\<close>.\<close>

definition backoff_sleep :: "scraper \<Rightarrow> int \<Rightarrow> error + scraper" where
  "backoff_sleep s t =
     (if t < 0 then Inl (ValueError ''sleep length must be non-negative'')
      else Inr (s\<lparr> events := events s @ [Backoff t] \<rparr>))"

definition not_found_msg :: string where
  "not_found_msg = ''P'' @ [CHR 0xE1] @ ''gina no encontrada (404): ''"

text \<open>The message of the \<open>HTTPError\<close> that \<open>raise_for_status\<close> raises.\<close>

definition http_error_msg :: "response \<Rightarrow> string \<Rightarrow> string" where
  "http_error_msg r url =
     str_int (status_code r)
     @ (if status_code r < 500 then '' Client Error: '' else '' Server Error: '')
     @ reason r @ '' for url: '' @ url"

text \<open>
  The loop \<open>for attempt in range(MAX_RETRIES)\<close> of \<open>fetch_page\<close>, over the attempts
  still to make, with \<open>last_error\<close>. A \<open>continue\<close> and the end of the body go on with
  the next attempt; \<open>return\<close> and an exception that no \<open>except\<close> catches leave the loop.
\<close>

fun fetch_attempts ::
  "env \<Rightarrow> string \<Rightarrow> nat list \<Rightarrow> error option \<Rightarrow> scraper \<Rightarrow> (error + string) \<times> scraper" where
  "fetch_attempts E url [] last_error s =
     (Inl (case last_error of
             Some e \<Rightarrow> e
           | None \<Rightarrow> ScraperError (''No se pudo descargar: '' @ url)), s)"
| "fetch_attempts E url (attempt # rest) last_error s =
     (case session_get E s url of
        (RequestException msg, s1) \<Rightarrow>
          (case backoff_sleep s1 (RETRY_BACKOFF_BASE * 2 ^ attempt) of
             Inl e \<Rightarrow> (Inl e, s1)
           | Inr s2 \<Rightarrow>
               fetch_attempts E url rest (Some (ScraperError (''Error de red: '' @ msg))) s2)
      | (Response r, s1) \<Rightarrow>
          let s2 = s1\<lparr> request_count := request_count s1 + 1 \<rparr>
          in if status_code r = 200 then
               if detect_captcha (body r) then
                 (let s3 = s2\<lparr> user_agent := CHATGPT_USER_AGENT \<rparr>
                  in case backoff_sleep s3 (RETRY_BACKOFF_BASE * 2 ^ attempt) of
                       Inl e \<Rightarrow> (Inl e, s3)
                     | Inr s4 \<Rightarrow> fetch_attempts E url rest (Some (CaptchaError url)) s4)
               else (Inr (body r), s2)
             else if status_code r = 429 then
               (case retry_after r of
                  Malformed v \<Rightarrow> (Inl (ValueError (''invalid literal for int(): '' @ v)), s2)
                | hdr \<Rightarrow>
                    let n = (case hdr of Number k \<Rightarrow> k | _ \<Rightarrow> RETRY_BACKOFF_BASE);
                        wait_time = n * 2 ^ attempt
                    in case backoff_sleep s2 wait_time of
                         Inl e \<Rightarrow> (Inl e, s2)
                       | Inr s3 \<Rightarrow> fetch_attempts E url rest (Some (RateLimitError wait_time)) s3)
             else if status_code r = 404 then
               (Inl (ScraperError (not_found_msg @ url)), s2)
             else if 400 \<le> status_code r \<and> status_code r < 600 then
               (case backoff_sleep s2 (RETRY_BACKOFF_BASE * 2 ^ attempt) of
                  Inl e \<Rightarrow> (Inl e, s2)
                | Inr s3 \<Rightarrow>
                    fetch_attempts E url rest
                      (Some (ScraperError (''Error de red: '' @ http_error_msg r url))) s3)
             else fetch_attempts E url rest last_error s2)"

definition fetch_page :: "env \<Rightarrow> scraper \<Rightarrow> string \<Rightarrow> (error + string) \<times> scraper" where
  "fetch_page E s url = fetch_attempts E url [0..<MAX_RETRIES] None s"

subsection \<open>The listing traversal\<close>

text \<open>Truthiness of an \<open>Optional[int]\<close>: \<open>None\<close> and 0 are falsy.\<close>

fun int_truthy :: "int option \<Rightarrow> bool" where
  "int_truthy None = False"
| "int_truthy (Some n) = (n \<noteq> 0)"

text \<open>\<open>math.ceil(a / b)\<close> for a positive \<open>b\<close>, computed on the integers.\<close>

definition ceil_div :: "int \<Rightarrow> int \<Rightarrow> int" where
  "ceil_div a b = - ((- a) div b)"

text \<open>
  The loop over the pages 2 to \<open>total_pages\<close>, with \<open>all_urls\<close> accumulated so far.
  The \<open>break\<close> leaves it once a cap is given and reached; a \<open>ScraperError\<close> of a
  page is swallowed and the loop goes on; any other exception leaves the function.
\<close>

fun listing_pages ::
  "env \<Rightarrow> pylib \<Rightarrow> string option \<Rightarrow> string option \<Rightarrow> string option \<Rightarrow> int option
     \<Rightarrow> int list \<Rightarrow> string list \<times> scraper \<Rightarrow> (error + string list) \<times> scraper" where
  "listing_pages E L a p l max_results [] (all_urls, s) = (Inr all_urls, s)"
| "listing_pages E L a p l max_results (page # pages) (all_urls, s) =
     (if int_truthy max_results \<and> int (length all_urls) \<ge> the max_results
      then (Inr all_urls, s)
      else
        (case build_listing_url a p l page of
           Inl e \<Rightarrow> (Inl e, s)
         | Inr url \<Rightarrow>
            (case fetch_page E s url of
               (Inr html, s1) \<Rightarrow>
                 listing_pages E L a p l max_results pages
                   (all_urls @ parse_listing_page L html, s1)
             | (Inl e, s1) \<Rightarrow>
                 if is_ScraperError e
                 then listing_pages E L a p l max_results pages (all_urls, s1)
                 else (Inl e, s1))))"

text \<open>The number of pages the traversal plans to visit.\<close>

definition total_pages :: "int option \<Rightarrow> int \<Rightarrow> int" where
  "total_pages max_results total_results =
     (let effective_max =
            (if int_truthy max_results \<and> the max_results > 0 then the max_results
             else total_results)
      in ceil_div (min effective_max total_results) RESULTS_PER_PAGE)"

text \<open>The first page: its result count and its URLs.\<close>

definition first_page ::
  "env \<Rightarrow> pylib \<Rightarrow> scraper \<Rightarrow> string option \<Rightarrow> string option \<Rightarrow> string option
     \<Rightarrow> (error + int \<times> string list) \<times> scraper" where
  "first_page E L s a p l =
     (case build_listing_url a p l 1 of
        Inl e \<Rightarrow> (Inl e, s)
      | Inr url \<Rightarrow>
         (case fetch_page E s url of
            (Inl e, s1) \<Rightarrow> (Inl e, s1)
          | (Inr html, s1) \<Rightarrow> (Inr (parse_result_count L html, parse_listing_page L html), s1)))"

definition scrape_listing_urls ::
  "env \<Rightarrow> pylib \<Rightarrow> scraper \<Rightarrow> string option \<Rightarrow> string option \<Rightarrow> string option \<Rightarrow> int option
     \<Rightarrow> (error + string list \<times> int) \<times> scraper" where
  "scrape_listing_urls E L s a p l max_results =
     (case first_page E L s a p l of
        (Inl e, s1) \<Rightarrow> (Inl e, s1)
      | (Inr (total_results, page_urls), s1) \<Rightarrow>
          if total_results = 0 then (Inr ([], 0), s1)
          else
            (case listing_pages E L a p l max_results
                    [2..total_pages max_results total_results] (page_urls, s1) of
               (Inl e, s2) \<Rightarrow> (Inl e, s2)
             | (Inr all_urls, s2) \<Rightarrow>
                 (Inr (if int_truthy max_results \<and> the max_results > 0
                       then take (nat (the max_results)) all_urls else all_urls,
                       total_results), s2)))"

subsection \<open>The entity traversal\<close>

definition scrape_company :: "env \<Rightarrow> pylib \<Rightarrow> scraper \<Rightarrow> string \<Rightarrow> (error + Empresa) \<times> scraper" where
  "scrape_company E L s url =
     (case fetch_page E s url of
        (Inl e, s1) \<Rightarrow> (Inl e, s1)
      | (Inr html, s1) \<Rightarrow> (Inr (parse_company_page L html url), s1))"

text \<open>\<open>save_to_json\<close> of exporter.py: it writes the file, or raises what the disk raises.\<close>

definition save_to_json :: "env \<Rightarrow> scraper \<Rightarrow> Empresa list \<Rightarrow> string \<Rightarrow> (error + string) \<times> scraper" where
  "save_to_json E s empresas filepath =
     (case save_error E (saves s) of
        Some msg \<Rightarrow> (Inl (OSError msg), s\<lparr> saves := saves s + 1 \<rparr>)
      | None \<Rightarrow> (Inr filepath, s\<lparr> saves := saves s + 1, files := (files s)(filepath \<mapsto> empresas) \<rparr>))"

text \<open>
  The body of the loop over \<open>company_urls\<close> in \<open>run\<close>: the \<open>try\<close> block and its
  \<open>except Exception\<close>, which turns whatever was raised into an entry of the failures.
\<close>

definition process_url ::
  "env \<Rightarrow> pylib \<Rightarrow> string option \<Rightarrow> string \<Rightarrow> scraper \<times> ScrapeProgress \<Rightarrow> scraper \<times> ScrapeProgress" where
  "process_url E L json_path url sp =
     (case sp of (s, progress) \<Rightarrow>
        (case scrape_company E L s url of
           (Inl e, s1) \<Rightarrow> (s1, add_error progress url (str_error e))
         | (Inr empresa, s1) \<Rightarrow>
             let progress1 = add_success progress empresa
             in if truthy json_path \<and> length (empresas_ok progress1) mod SAVE_EVERY_N = 0
                then (case save_to_json E s1 (empresas_ok progress1) (the json_path) of
                        (Inl e, s2) \<Rightarrow> (s2, add_error progress1 url (str_error e))
                      | (Inr path, s2) \<Rightarrow> (s2, progress1))
                else (s1, progress1)))"

fun process_urls ::
  "env \<Rightarrow> pylib \<Rightarrow> string option \<Rightarrow> string list \<Rightarrow> scraper \<times> ScrapeProgress \<Rightarrow> scraper \<times> ScrapeProgress" where
  "process_urls E L json_path [] sp = sp"
| "process_urls E L json_path (url # urls) sp =
     process_urls E L json_path urls (process_url E L json_path url sp)"

text \<open>
  \<open>run\<close>. The progress callback and the logger only report; they are left out.
\<close>

definition run ::
  "env \<Rightarrow> pylib \<Rightarrow> scraper \<Rightarrow> string option \<Rightarrow> string option \<Rightarrow> string option \<Rightarrow> int option
     \<Rightarrow> string option \<Rightarrow> (error + ScrapeProgress) \<times> scraper" where
  "run E L s a p l max_results output_filename =
     (case scrape_listing_urls E L s a p l max_results of
        (Inl e, s1) \<Rightarrow> (Inl e, s1)
      | (Inr (company_urls, total_results), s1) \<Rightarrow>
          let progress = ScrapeProgress_new\<lparr> total_esperado := int (length company_urls) \<rparr>
          in if company_urls = [] then (Inr progress, s1)
             else
               let json_path =
                     (if truthy output_filename
                      then Some (output_dir s1 @ ''/'' @ the output_filename @ ''.json'')
                      else None)
               in (case process_urls E L json_path company_urls (s1, progress) of
                     (s2, progress2) \<Rightarrow>
                       if truthy json_path \<and> empresas_ok progress2 \<noteq> []
                       then (case save_to_json E s2 (empresas_ok progress2) (the json_path) of
                               (Inl e, s3) \<Rightarrow> (Inl e, s3)
                             | (Inr path, s3) \<Rightarrow> (Inr progress2, s3\<lparr> closed := True \<rparr>))
                       else (Inr progress2, s2\<lparr> closed := True \<rparr>)))"

text \<open>A URL is recorded in the ledger: among the failures, or as a success's \<open>url_ficha\<close>.\<close>

definition recorded :: "ScrapeProgress \<Rightarrow> string \<Rightarrow> bool" where
  "recorded pr url = (url \<in> fst ` set (empresas_error pr) \<or> url \<in> url_ficha ` set (empresas_ok pr))"

subsection \<open>Observing the delays\<close>

fun is_response :: "event \<Rightarrow> bool" where
  "is_response (Response_received st) = True"
| "is_response e = False"

text \<open>
  What the code does, read off a sequence of events: a request carries a delay, and one
  within the configured window, exactly when a response was received before it.
  \<open>responded\<close> says whether one was received before the events at hand.
\<close>

fun delays_ok :: "bool \<Rightarrow> event list \<Rightarrow> bool" where
  "delays_ok responded [] = True"
| "delays_ok responded (Request d url # es) =
     ((case d of
         None \<Rightarrow> \<not> responded
       | Some x \<Rightarrow> responded \<and> REQUEST_DELAY_MIN \<le> x \<and> x \<le> REQUEST_DELAY_MAX)
      \<and> delays_ok responded es)"
| "delays_ok responded (Response_received st # es) = delays_ok True es"
| "delays_ok responded (e # es) = delays_ok responded es"



text \<open>The invariant that links \<open>_request_count\<close> to the events.\<close>

definition fetcher_inv :: "scraper \<Rightarrow> bool" where
  "fetcher_inv s =
     (delays_ok False (events s) \<and> (request_count s > 0) = list_ex is_response (events s))"

section \<open>Example pages and environments\<close>

text \<open>
  Concrete inputs for the closed theorems below. A library instance is given by the
  pages it parses (every other markup parses to an empty document); its
  \<open>html.unescape\<close> is the identity, which is what the function is on a text without
  \<open>&\<close>.
\<close>

definition empty_soup :: node where
  "empty_soup = Tag ''[document]'' [] []"

definition lib_of :: "(string \<times> node) list \<Rightarrow> pylib" where
  "lib_of pages =
     \<lparr> BeautifulSoup = (\<lambda>h. case map_of pages h of Some d \<Rightarrow> d | None \<Rightarrow> empty_soup),
       unescape = (\<lambda>t. t) \<rparr>"

text \<open>A document whose \<open>body\<close> holds the given nodes, as lxml wraps a fragment.\<close>

definition document :: "node list \<Rightarrow> node" where
  "document nodes = Tag ''[document]'' [] [Tag ''html'' [] [Tag ''body'' [] nodes]]"

text \<open>A company page whose only content is an address element holding a placeholder.\<close>

definition address_page_html :: string where
  "address_page_html = ''<span itemprop=address>No disponible</span>''"

definition address_page_soup :: node where
  "address_page_soup =
     document [Tag ''span'' [(''itemprop'', ''address'')] [NavigableString ''No disponible'']]"

definition address_lib :: pylib where
  "address_lib = lib_of [(address_page_html, address_page_soup)]"

text \<open>A site that answers every request with 404, and a disk that never fails.\<close>

definition not_found_response :: response where
  "not_found_response =
     \<lparr> status_code = 404, body = [], reason = ''Not Found'', retry_after = Missing \<rparr>"

definition not_found_env :: env where
  "not_found_env =
     \<lparr> world = (\<lambda>k url. Response not_found_response), rnd = (\<lambda>k. 1 / 2),
       save_error = (\<lambda>k. None) \<rparr>"

definition some_company_url :: string where
  "some_company_url = ''https://empresite.eleconomista.es/NOVANTOLIN-PESCA.html''"

text \<open>A site whose first request times out and that answers every later one.\<close>

definition ok_response :: response where
  "ok_response =
     \<lparr> status_code = 200, body = ''<html></html>'', reason = ''OK'', retry_after = Missing \<rparr>"


text \<open>
  A site with one company page missing: it answers 404 for that URL and serves the
  same small company page for every other.
\<close>

definition company_page_html :: string where
  "company_page_html = ''<h3>CIF</h3><p>A12345678</p>''"

definition company_page_soup :: node where
  "company_page_soup =
     document [Tag ''h3'' [] [NavigableString ''CIF''], Tag ''p'' [] [NavigableString ''A12345678'']]"

definition company_lib :: pylib where
  "company_lib = lib_of [(company_page_html, company_page_soup)]"

definition missing_company_url :: string where
  "missing_company_url = ''https://empresite.eleconomista.es/GONE.html''"

definition one_missing_env :: env where
  "one_missing_env =
     \<lparr> world = (\<lambda>k url. if url = missing_company_url then Response not_found_response
                         else Response (ok_response\<lparr> body := company_page_html \<rparr>)),
       rnd = (\<lambda>k. 1 / 2), save_error = (\<lambda>k. None) \<rparr>"

text \<open>The ledger after the loop of \<open>run\<close> over three URLs of that site, the second one missing.\<close>

definition three_urls_progress :: ScrapeProgress where
  "three_urls_progress =
     snd (process_urls one_missing_env company_lib None
            [some_company_url, missing_company_url, some_company_url]
            (EmpresiteScraper ''output'', ScrapeProgress_new))"






text \<open>
  Listing pages of the activity PESCA: a card with its URL annotation, the summary that
  reports 65 companies, a page of the summary and 30 cards, a page of the summary and
  one card, and a page of one card without the summary.
\<close>

definition card_html :: string where
  "card_html = ''<div class=cardCompanyBox><meta itemprop=url content=/e.html></div>''"

definition card_soup :: node where
  "card_soup =
     Tag ''div'' [(''class'', ''cardCompanyBox'')]
       [Tag ''meta'' [(''itemprop'', ''url''), (''content'', ''/e.html'')] []]"

definition summary_html :: string where
  "summary_html = ''<p id=filter-numresultados>Hemos encontrado 65 empresas</p>''"

definition summary_soup :: node where
  "summary_soup =
     Tag ''p'' [(''id'', ''filter-numresultados'')] [NavigableString ''Hemos encontrado 65 empresas'']"

definition full_page_html :: string where
  "full_page_html = summary_html @ concat (replicate 30 card_html)"

definition full_page_soup :: node where
  "full_page_soup = document (summary_soup # replicate 30 card_soup)"

definition short_page_html :: string where
  "short_page_html = summary_html @ card_html"

definition zero_page_html :: string where
  "zero_page_html = card_html"

definition card_url :: string where
  "card_url = ''https://empresite.eleconomista.es/e.html''"

definition full_lib :: pylib where
  "full_lib = lib_of [(full_page_html, full_page_soup)]"

definition short_lib :: pylib where
  "short_lib = lib_of [(short_page_html, document [summary_soup, card_soup])]"

definition zero_lib :: pylib where
  "zero_lib = lib_of [(zero_page_html, document [card_soup])]"

text \<open>A site that serves the same page for every URL.\<close>

definition page_env :: "string \<Rightarrow> env" where
  "page_env html =
     \<lparr> world = (\<lambda>k url. Response (ok_response\<lparr> body := html \<rparr>)),
       rnd = (\<lambda>k. 1 / 2), save_error = (\<lambda>k. None) \<rparr>"

definition pesca_page_1 :: string where
  "pesca_page_1 = ''https://empresite.eleconomista.es/Actividad/PESCA/''"

definition pesca_page_2 :: string where
  "pesca_page_2 = ''https://empresite.eleconomista.es/Actividad/PESCA/PgNum-2/''"

text \<open>A site that serves a page for page 1 of the listing and answers 404 for any other URL.\<close>

definition first_page_only_env :: "string \<Rightarrow> env" where
  "first_page_only_env html =
     \<lparr> world = (\<lambda>k url. if url = pesca_page_1 then Response (ok_response\<lparr> body := html \<rparr>)
                         else Response not_found_response),
       rnd = (\<lambda>k. 1 / 2), save_error = (\<lambda>k. None) \<rparr>"

text \<open>Three traversals with a cap of 40, one on each of these sites.\<close>

definition full_site_run :: "(error + string list \<times> int) \<times> scraper" where
  "full_site_run =
     scrape_listing_urls (page_env full_page_html) full_lib (EmpresiteScraper ''output'')
       (Some ''PESCA'') None None (Some 40)"

definition zero_count_run :: "(error + string list \<times> int) \<times> scraper" where
  "zero_count_run =
     scrape_listing_urls (page_env zero_page_html) zero_lib (EmpresiteScraper ''output'')
       (Some ''PESCA'') None None (Some 40)"

definition short_site_run :: "(error + string list \<times> int) \<times> scraper" where
  "short_site_run =
     scrape_listing_urls (first_page_only_env short_page_html) short_lib
       (EmpresiteScraper ''output'') (Some ''PESCA'') None None (Some 40)"

section \<open>Properties\<close>

subsection \<open>The progress ledger\<close>

lemma total_procesadas_zero_iff:
  "total_procesadas p = 0 \<longleftrightarrow> empresas_ok p = [] \<and> empresas_error p = []"
  by (simp add: total_procesadas_def flip: of_nat_add)

text \<open>
  C10. The success rate is total: it never raises \<open>ZeroDivisionError\<close>. On a ledger
  with nothing processed it returns 0.0, and on any other ledger it is the number of
  successes divided by the processed count, times 100.
\<close>

theorem tasa_exito_total:
  "tasa_exito p =
     Inr (if empresas_ok p = [] \<and> empresas_error p = [] then 0
          else real (length (empresas_ok p))
               / real (length (empresas_ok p) + length (empresas_error p)) * 100)"
  by (simp add: tasa_exito_def py_truediv_def total_procesadas_def)

subsection \<open>Listing URLs\<close>

text \<open>
  C7. \<open>build_listing_url\<close> raises (the \<open>ValueError\<close> that is the invalid-selector
  condition) if and only if activity, province and locality are all absent, where a
  selector is absent when it is \<open>None\<close> or the empty string (Python's falsy values);
  with at least one selector given it returns a URL and raises nothing.
\<close>

theorem build_listing_url_invalid_iff:
  "(build_listing_url a p l page = Inl (ValueError no_filter_msg))
     = (\<not> truthy a \<and> \<not> truthy p \<and> \<not> truthy l)
   \<and> isl (build_listing_url a p l page) = (\<not> truthy a \<and> \<not> truthy p \<and> \<not> truthy l)
   \<and> build_listing_url None None None page = Inl (ValueError no_filter_msg)"
  by (simp add: build_listing_url_def Let_def)

lemmas location_part_defs =
  is_location_part_def is_locality_part_def is_province_part_def

text \<open>
  C8. For every selector combination with at least one selector given and every page
  number, the URL is the join of \<open>parts\<close>, a slash and the page suffix, and
  \<open>parts\<close> never holds both a province segment and a locality segment. When a
  locality is given the province plays no role: the only location segment is the
  locality's. Without a locality, a given province supplies the only location segment.
  When an activity is given its segment comes right after the base URL, before the
  location segment.
\<close>

theorem build_listing_url_one_location:
  assumes "truthy a \<or> truthy p \<or> truthy l"
  shows "build_listing_url a p l page
           = Inr (concat (listing_parts a p l) @ ''/''
                  @ (if page > 1 then ''PgNum-'' @ str_int page @ ''/'' else []))
       \<and> \<not> (list_ex is_province_part (listing_parts a p l)
              \<and> list_ex is_locality_part (listing_parts a p l))
       \<and> (truthy l \<longrightarrow>
              build_listing_url a p l page = build_listing_url a None l page
              \<and> filter is_location_part (listing_parts a p l) = [''/localidad/'' @ the l])
       \<and> (\<not> truthy l \<and> truthy p \<longrightarrow>
              filter is_location_part (listing_parts a p l) = [''/provincia/'' @ the p])
       \<and> (truthy a \<longrightarrow>
              take 2 (listing_parts a p l) = [BASE_URL, ''/Actividad/'' @ the a]
              \<and> list_all is_location_part (drop 2 (listing_parts a p l)))
       \<and> (\<not> truthy a \<longrightarrow>
              take 1 (listing_parts a p l) = [BASE_URL]
              \<and> list_all is_location_part (drop 1 (listing_parts a p l)))"
  using assms
  by (auto simp: build_listing_url_def listing_parts_def location_part_defs BASE_URL_def Let_def)

theorem build_listing_url_one_location_witness:
  "build_listing_url (Some ''PESCA'') (Some ''PONTEVEDRA'') (Some ''VIGO-PONTEVEDRA'') 2
     = Inr ''https://empresite.eleconomista.es/Actividad/PESCA/localidad/VIGO-PONTEVEDRA/PgNum-2/''
   \<and> build_listing_url (Some ''PESCA'') (Some ''PONTEVEDRA'') (Some ''VIGO-PONTEVEDRA'') 2
     = build_listing_url (Some ''PESCA'') None (Some ''VIGO-PONTEVEDRA'') 2
   \<and> filter is_location_part
        (listing_parts (Some ''PESCA'') (Some ''PONTEVEDRA'') (Some ''VIGO-PONTEVEDRA''))
     = [''/localidad/VIGO-PONTEVEDRA'']"
  using build_listing_url_one_location
          [of "Some ''PESCA''" "Some ''PONTEVEDRA''" "Some ''VIGO-PONTEVEDRA''" 2]
  by (simp add: build_listing_url_def listing_parts_def location_part_defs BASE_URL_def
        str_int_def digit_char_def)

subsection \<open>Company pages\<close>

lemma url_ficha_parse_company_page [simp]:
  "url_ficha (parse_company_page L page_html url) = url"
  by (simp add: parse_company_page_def Empresa_new_def Let_def)

lemma direccion_parse_company_page:
  "direccion (parse_company_page L page_html url)
     = or_else (extract_field_value L (BeautifulSoup L page_html) ''Direcci'')
               (address_text L (BeautifulSoup L page_html))"
  by (simp add: parse_company_page_def Let_def)

lemma web_parse_company_page_no_placeholder:
  "web (parse_company_page L page_html url) = [] \<or>
   \<not> is_placeholder (web (parse_company_page L page_html url))"
  by (simp add: parse_company_page_def Let_def)

text \<open>
  C9. The record that \<open>parse_company_page\<close> returns has \<open>url_ficha\<close> equal to the
  URL passed in, whatever the markup, the parser and \<open>html.unescape\<close> are.
\<close>

theorem parse_company_page_url_ficha:
  "url_ficha (parse_company_page L page_html url) = url"
  by (simp add: parse_company_page_def Empresa_new_def Let_def)

text \<open>
  C1. The claim fails on the code: the fallback of the address takes the text of the
  element marked \<open>itemprop="address"\<close> without the placeholder test, so on a page
  whose address element reads \<open>No disponible\<close> the field \<open>direccion\<close> of the record is
  that placeholder phrase.
\<close>

theorem parse_company_page_address_placeholder:
  "direccion (parse_company_page address_lib address_page_html some_company_url)
     = ''No disponible''
   \<and> is_placeholder (direccion (parse_company_page address_lib address_page_html some_company_url))"
proof -
  have d: "direccion (parse_company_page address_lib address_page_html some_company_url)
             = ''No disponible''"
    unfolding direccion_parse_company_page by code_simp
  have "is_placeholder ''No disponible''" by code_simp
  with d show ?thesis by simp
qed

subsection \<open>Fetching a page\<close>

text \<open>
  C6. Whenever an attempt of \<open>fetch_page\<close> receives a response with status 404,
  whatever attempts remain and whatever error was recorded before, the call fails at
  once with the \<open>ScraperError\<close> of the page not found: this request is the last event of
  the call, no sleep and no further request follow. In particular a call whose first
  response is a 404 makes exactly one request.
\<close>

theorem fetch_page_404_terminal:
  assumes "world E (calls s) url = Response r" and "status_code r = 404"
  shows "\<exists>s'. fetch_attempts E url (attempt # rest) last_error s
                  = (Inl (ScraperError (not_found_msg @ url)), s')
              \<and> fetch_page E s url = (Inl (ScraperError (not_found_msg @ url)), s')
              \<and> events s'
                  = events s
                    @ [Request (if request_count s > 0
                                then Some (random_uniform E (draws s) REQUEST_DELAY_MIN REQUEST_DELAY_MAX)
                                else None) url,
                       Response_received 404]
              \<and> calls s' = calls s + 1"
  using assms
  by (simp add: fetch_page_def MAX_RETRIES_def upt_rec [of 0] session_get_def Let_def)

theorem fetch_page_404_terminal_witness:
  "fst (fetch_page not_found_env (EmpresiteScraper ''output'') some_company_url)
     = Inl (ScraperError (not_found_msg @ some_company_url))
   \<and> events (snd (fetch_page not_found_env (EmpresiteScraper ''output'') some_company_url))
     = [Request None some_company_url, Response_received 404]"
proof -
  have w: "world not_found_env (calls (EmpresiteScraper ''output'')) some_company_url
             = Response not_found_response"
    by (simp add: not_found_env_def)
  have st: "status_code not_found_response = 404"
    by (simp add: not_found_response_def)
  from fetch_page_404_terminal [OF w st, of 0 "[]" None]
  show ?thesis by (auto simp: EmpresiteScraper_def)
qed

subsection \<open>The politeness delay\<close>













lemma closed_inv [simp]: "fetcher_inv (s\<lparr> closed := b \<rparr>) = fetcher_inv s"
  by (simp add: fetcher_inv_def)











subsection \<open>The entity traversal\<close>

lemma fetch_page_404:
  assumes "world E (calls s) url = Response r" and "status_code r = 404"
  shows "fst (fetch_page E s url) = Inl (ScraperError (not_found_msg @ url))"
  using assms
  by (simp add: fetch_page_def MAX_RETRIES_def upt_rec [of 0] session_get_def Let_def)

lemma scrape_company_404:
  assumes "world E (calls s) url = Response r" and "status_code r = 404"
  shows "fst (scrape_company E L s url) = Inl (ScraperError (not_found_msg @ url))"
  using fetch_page_404 [OF assms]
  by (cases "fetch_page E s url") (auto simp: scrape_company_def)

lemma process_url_failure:
  "scrape_company E L s url = (Inl e, s') \<Longrightarrow>
   process_url E L jp url (s, pr) = (s', add_error pr url (str_error e))"
  by (simp add: process_url_def)

lemma scrape_company_url_ficha:
  "scrape_company E L s url = (Inr empresa, s') \<Longrightarrow> url_ficha empresa = url"
  by (auto simp: scrape_company_def split: prod.splits sum.splits)

lemma process_url_grows:
  assumes "process_url E L jp url (s, pr) = (s', pr')"
  shows "\<exists>oks errs. empresas_ok pr' = empresas_ok pr @ oks
           \<and> empresas_error pr' = empresas_error pr @ errs
           \<and> (url \<in> fst ` set errs \<or> url \<in> url_ficha ` set oks)
           \<and> 1 \<le> length oks + length errs"
proof -
  obtain r1 s1 where sc: "scrape_company E L s url = (r1, s1)" by (cases "scrape_company E L s url")
  show ?thesis
  proof (cases r1)
    case (Inl e)
    then have "pr' = add_error pr url (str_error e)"
      using assms sc by (simp add: process_url_def)
    then show ?thesis by (simp add: add_error_def)
  next
    case (Inr empresa)
    then have uf: "url_ficha empresa = url" using sc scrape_company_url_ficha by blast
    show ?thesis
    proof (cases "truthy jp \<and> length (empresas_ok (add_success pr empresa)) mod SAVE_EVERY_N = 0")
      case False
      then have "pr' = add_success pr empresa"
        using assms sc Inr by (auto simp: process_url_def Let_def)
      then show ?thesis using uf by (simp add: add_success_def)
    next
      case True
      obtain r2 s2 where sv: "save_to_json E s1 (empresas_ok (add_success pr empresa)) (the jp) = (r2, s2)"
        by (cases "save_to_json E s1 (empresas_ok (add_success pr empresa)) (the jp)")
      show ?thesis
      proof (cases r2)
        case (Inl e)
        then have "pr' = add_error (add_success pr empresa) url (str_error e)"
          using assms sc Inr True sv by (auto simp: process_url_def Let_def)
        then show ?thesis by (simp add: add_success_def add_error_def)
      next
        case inr2: (Inr path)
        then have "pr' = add_success pr empresa"
          using assms sc Inr True sv by (auto simp: process_url_def Let_def)
        then show ?thesis using uf by (simp add: add_success_def)
      qed
    qed
  qed
qed

lemma process_urls_grows:
  "process_urls E L jp urls (s, pr) = (s', pr') \<Longrightarrow>
   \<exists>oks errs. empresas_ok pr' = empresas_ok pr @ oks
           \<and> empresas_error pr' = empresas_error pr @ errs
           \<and> list_all (\<lambda>u. u \<in> fst ` set errs \<or> u \<in> url_ficha ` set oks) urls
           \<and> length urls \<le> length oks + length errs"
proof (induction urls arbitrary: s pr)
  case Nil
  then show ?case by simp
next
  case (Cons url urls)
  obtain s1 pr1 where st: "process_url E L jp url (s, pr) = (s1, pr1)"
    by (cases "process_url E L jp url (s, pr)")
  from process_url_grows [OF st] obtain oks1 errs1 where
    g1: "empresas_ok pr1 = empresas_ok pr @ oks1" "empresas_error pr1 = empresas_error pr @ errs1"
        "url \<in> fst ` set errs1 \<or> url \<in> url_ficha ` set oks1" "1 \<le> length oks1 + length errs1"
    by blast
  have "process_urls E L jp urls (s1, pr1) = (s', pr')" using Cons.prems st by simp
  from Cons.IH [OF this] obtain oks2 errs2 where
    g2: "empresas_ok pr' = empresas_ok pr1 @ oks2" "empresas_error pr' = empresas_error pr1 @ errs2"
        "list_all (\<lambda>u. u \<in> fst ` set errs2 \<or> u \<in> url_ficha ` set oks2) urls"
        "length urls \<le> length oks2 + length errs2"
    by blast
  have "list_all (\<lambda>u. u \<in> fst ` set (errs1 @ errs2) \<or> u \<in> url_ficha ` set (oks1 @ oks2)) (url # urls)"
    using g1(3) g2(3) by (auto simp: list_all_iff)
  then show ?case using g1 g2
    by (intro exI [of _ "oks1 @ oks2"] exI [of _ "errs1 @ errs2"]) simp
qed

lemma process_urls_append:
  "process_urls E L jp (xs @ ys) sp = process_urls E L jp ys (process_urls E L jp xs sp)"
  by (induction xs arbitrary: sp) simp_all

text \<open>
  C3. In the loop of \<open>run\<close> over the discovered URLs, let the URLs \<open>pre\<close> be processed
  and let fetching or extracting the next URL raise the exception \<open>e\<close>. Then the step
  for this URL appends the pair of the URL and \<open>str(e)\<close> to the failures and leaves
  the successes as they were, and the loop goes on with the URLs \<open>post\<close>: at its end
  the failure is still recorded, every URL of \<open>post\<close> is recorded among the successes
  or the failures, and the ledger has grown by at least one entry per URL.
\<close>

theorem entity_failure_recorded_run_continues:
  assumes "process_urls E L jp pre (s, pr) = (s1, pr1)"
      and "scrape_company E L s1 url = (Inl e, s2)"
  shows "process_url E L jp url (s1, pr1) = (s2, add_error pr1 url (str_error e))
       \<and> empresas_error (add_error pr1 url (str_error e)) = empresas_error pr1 @ [(url, str_error e)]
       \<and> empresas_ok (add_error pr1 url (str_error e)) = empresas_ok pr1
       \<and> process_urls E L jp (pre @ url # post) (s, pr)
           = process_urls E L jp post (s2, add_error pr1 url (str_error e))
       \<and> (url, str_error e) \<in> set (empresas_error (snd (process_urls E L jp (pre @ url # post) (s, pr))))
       \<and> list_all (recorded (snd (process_urls E L jp (pre @ url # post) (s, pr)))) post
       \<and> total_procesadas pr + int (length (pre @ url # post))
           \<le> total_procesadas (snd (process_urls E L jp (pre @ url # post) (s, pr)))"
proof -
  let ?pr2 = "add_error pr1 url (str_error e)"
  have step: "process_url E L jp url (s1, pr1) = (s2, ?pr2)"
    using assms(2) by (rule process_url_failure)
  have cont: "process_urls E L jp (pre @ url # post) (s, pr) = process_urls E L jp post (s2, ?pr2)"
    using assms(1) step by (simp add: process_urls_append)
  obtain s3 pr3 where fin: "process_urls E L jp post (s2, ?pr2) = (s3, pr3)"
    by (cases "process_urls E L jp post (s2, ?pr2)")
  from process_urls_grows [OF fin] obtain oks errs where
    g: "empresas_ok pr3 = empresas_ok ?pr2 @ oks" "empresas_error pr3 = empresas_error ?pr2 @ errs"
       "list_all (\<lambda>u. u \<in> fst ` set errs \<or> u \<in> url_ficha ` set oks) post"
       "length post \<le> length oks + length errs"
    by blast
  from process_urls_grows [OF assms(1)] obtain oks0 errs0 where
    g0: "empresas_ok pr1 = empresas_ok pr @ oks0" "empresas_error pr1 = empresas_error pr @ errs0"
        "length pre \<le> length oks0 + length errs0"
    by blast
  have mem: "(url, str_error e) \<in> set (empresas_error pr3)"
    using g(2) by (simp add: add_error_def)
  have rec: "list_all (recorded pr3) post"
    using g(1,2,3) by (auto simp: list_all_iff recorded_def)
  have cnt: "total_procesadas pr + int (length (pre @ url # post)) \<le> total_procesadas pr3"
    using g(1,2,4) g0 by (simp add: total_procesadas_def add_error_def)
  show ?thesis using step cont fin mem rec cnt by (simp add: add_error_def)
qed

lemma no_captcha_company_page: "detect_captcha company_page_html = False"
  by code_simp

lemma company_urls_differ: "some_company_url \<noteq> missing_company_url"
  by code_simp

theorem entity_failure_recorded_run_continues_witness:
  "(missing_company_url, not_found_msg @ missing_company_url)
     \<in> set (empresas_error three_urls_progress)
   \<and> list_all (recorded three_urls_progress) [some_company_url]
   \<and> empresas_error three_urls_progress
       = [(missing_company_url, not_found_msg @ missing_company_url)]
   \<and> map url_ficha (empresas_ok three_urls_progress) = [some_company_url, some_company_url]"
proof -
  define s1 where
    "s1 = fst (process_urls one_missing_env company_lib None [some_company_url]
                 (EmpresiteScraper ''output'', ScrapeProgress_new))"
  define pr1 where
    "pr1 = snd (process_urls one_missing_env company_lib None [some_company_url]
                  (EmpresiteScraper ''output'', ScrapeProgress_new))"
  define s2 where "s2 = snd (scrape_company one_missing_env company_lib s1 missing_company_url)"
  have p1: "process_urls one_missing_env company_lib None [some_company_url]
              (EmpresiteScraper ''output'', ScrapeProgress_new) = (s1, pr1)"
    by (simp only: s1_def pr1_def prod.collapse)
  have w: "world one_missing_env (calls s1) missing_company_url = Response not_found_response"
    by (simp add: one_missing_env_def)
  have st: "status_code not_found_response = 404"
    by (simp add: not_found_response_def)
  have "fst (scrape_company one_missing_env company_lib s1 missing_company_url)
          = Inl (ScraperError (not_found_msg @ missing_company_url))"
    using w st by (rule scrape_company_404)
  then have p2: "scrape_company one_missing_env company_lib s1 missing_company_url
              = (Inl (ScraperError (not_found_msg @ missing_company_url)), s2)"
    by (simp add: s2_def prod_eq_iff)
  note th = entity_failure_recorded_run_continues
              [OF p1 p2, where post = "[some_company_url]",
               unfolded append_Cons append_Nil str_error.simps,
               folded three_urls_progress_def]
  from th have m: "(missing_company_url, not_found_msg @ missing_company_url)
                     \<in> set (empresas_error three_urls_progress)"
    by blast
  from th have r: "list_all (recorded three_urls_progress) [some_company_url]"
    by blast
  have e: "empresas_error three_urls_progress
             = [(missing_company_url, not_found_msg @ missing_company_url)]
           \<and> map url_ficha (empresas_ok three_urls_progress)
             = [some_company_url, some_company_url]"
    by (simp add: three_urls_progress_def process_url_def scrape_company_def fetch_page_def
          MAX_RETRIES_def upt_rec [of 0] session_get_def Let_def one_missing_env_def
          ok_response_def not_found_response_def no_captcha_company_page company_urls_differ
          EmpresiteScraper_def ScrapeProgress_new_def add_success_def add_error_def)
  from m r e show ?thesis by blast
qed

subsection \<open>The result count\<close>


































subsection \<open>The listing traversal\<close>

text \<open>
  \<open>p in s\<close> is the contiguous-sublist relation of the library. A text that holds \<open>p\<close>
  holds every pair of neighbouring characters of \<open>p\<close>, which settles that the long
  listing page holds none of the block-page phrases without scanning it.
\<close>

lemma startswith_prefix: "startswith s p = prefix p s"
  by (induction s p rule: startswith.induct) auto

lemma py_in_sublist: "py_in p s = sublist p s"
proof (induction s)
  case Nil
  then show ?case by simp
next
  case (Cons c cs)
  then show ?case by (simp add: startswith_prefix sublist_Cons_right)
qed

lemma pair_in_append:
  assumes "sublist [x, y] (s @ t)"
  shows "sublist [x, y] s \<or> sublist [x, y] t \<or> (s \<noteq> [] \<and> last s = x)"
proof -
  from assms consider "sublist [x, y] s" | "sublist [x, y] t"
    | xs1 xs2 where "[x, y] = xs1 @ xs2" "suffix xs1 s" "prefix xs2 t"
    by (auto simp: sublist_append)
  then show ?thesis
  proof cases
    case 1
    then show ?thesis by simp
  next
    case 2
    then show ?thesis by simp
  next
    case 3
    show ?thesis
    proof (cases xs1)
      case Nil
      then have "prefix [x, y] t" using 3 by simp
      then show ?thesis by (simp add: prefix_imp_sublist)
    next
      case (Cons a as)
      then have a: "a = x" using 3(1) by simp
      show ?thesis
      proof (cases as)
        case Nil
        then have "suffix [x] s" using 3(2) Cons a by simp
        then obtain zs where "s = zs @ [x]" by (auto simp: suffix_def)
        then show ?thesis by simp
      next
        case (Cons b bs)
        then have "xs1 = [x, y]" using 3(1) \<open>xs1 = a # as\<close> a
          by (cases bs) auto
        then have "suffix [x, y] s" using 3(2) by simp
        then show ?thesis by (simp add: suffix_imp_sublist)
      qed
    qed
  qed
qed

lemma pair_in_blocks:
  assumes "sublist [x, y] (concat (replicate n blk))"
  shows "sublist [x, y] blk \<or> (blk \<noteq> [] \<and> last blk = x)"
  using assms
proof (induction n)
  case 0
  then show ?case by simp
next
  case (Suc n)
  then have "sublist [x, y] (blk @ concat (replicate n blk))" by simp
  from pair_in_append [OF this] Suc.IH show ?case by blast
qed

lemma no_pair_no_occurrence:
  assumes "sublist [x, y] p"
    and "\<not> sublist [x, y] s" and "last s \<noteq> x"
    and "\<not> sublist [x, y] blk" and "last blk \<noteq> x"
  shows "\<not> py_in p (s @ concat (replicate n blk))"
proof
  assume "py_in p (s @ concat (replicate n blk))"
  then have "sublist p (s @ concat (replicate n blk))" by (simp add: py_in_sublist)
  with assms(1) have "sublist [x, y] (s @ concat (replicate n blk))"
    by (rule sublist_order.order_trans)
  from pair_in_append [OF this] assms(2,3)
  have "sublist [x, y] (concat (replicate n blk))" by blast
  from pair_in_blocks [OF this] assms(4,5) show False by blast
qed

lemma lower_full_page:
  "lower full_page_html = lower summary_html @ concat (replicate 30 (lower card_html))"
  by (simp add: full_page_html_def lower_def map_concat)

lemma no_captcha_full_page: "detect_captcha full_page_html = False"
proof -
  have s1: "sublist [CHR '' '', CHR ''p''] ''demasiadas peticiones detectadas''" by code_simp
  have s2: "sublist [CHR ''q'', CHR ''u''] ''verificar que no es un robot''" by code_simp
  have s3: "sublist [CHR ''e'', CHR ''l''] ''resuelva el captcha''" by code_simp
  have s4: "sublist [CHR ''o'', CHR ''o''] ''too many requests detected''" by code_simp
  have a1: "\<not> sublist [CHR '' '', CHR ''p''] (lower summary_html)" by code_simp
  have a2: "\<not> sublist [CHR ''q'', CHR ''u''] (lower summary_html)" by code_simp
  have a3: "\<not> sublist [CHR ''e'', CHR ''l''] (lower summary_html)" by code_simp
  have a4: "\<not> sublist [CHR ''o'', CHR ''o''] (lower summary_html)" by code_simp
  have b1: "\<not> sublist [CHR '' '', CHR ''p''] (lower card_html)" by code_simp
  have b2: "\<not> sublist [CHR ''q'', CHR ''u''] (lower card_html)" by code_simp
  have b3: "\<not> sublist [CHR ''e'', CHR ''l''] (lower card_html)" by code_simp
  have b4: "\<not> sublist [CHR ''o'', CHR ''o''] (lower card_html)" by code_simp
  have l1: "last (lower summary_html) = CHR ''>''" by code_simp
  have l2: "last (lower card_html) = CHR ''>''" by code_simp
  have n1: "\<not> py_in ''demasiadas peticiones detectadas'' (lower full_page_html)"
    unfolding lower_full_page by (rule no_pair_no_occurrence [OF s1 a1 _ b1]) (simp_all add: l1 l2)
  have n2: "\<not> py_in ''verificar que no es un robot'' (lower full_page_html)"
    unfolding lower_full_page by (rule no_pair_no_occurrence [OF s2 a2 _ b2]) (simp_all add: l1 l2)
  have n3: "\<not> py_in ''resuelva el captcha'' (lower full_page_html)"
    unfolding lower_full_page by (rule no_pair_no_occurrence [OF s3 a3 _ b3]) (simp_all add: l1 l2)
  have n4: "\<not> py_in ''too many requests detected'' (lower full_page_html)"
    unfolding lower_full_page by (rule no_pair_no_occurrence [OF s4 a4 _ b4]) (simp_all add: l1 l2)
  show ?thesis
    by (simp add: detect_captcha_def CAPTCHA_INDICATORS_def n1 n2 n3 n4)
qed

lemma listing_pages_break:
  assumes "0 < cap" "cap \<le> int (length acc)"
  shows "listing_pages E L a p l (Some cap) pages (acc, s) = (Inr acc, s)"
  using assms by (cases pages) simp_all

lemma scrape_listing_urls_result:
  assumes "0 < cap"
    and "scrape_listing_urls E L s a p l (Some cap) = (Inr (urls, total_results), s')"
  shows "if total_results = 0 then urls = []
         else \<exists>page_urls s1 all_urls.
                first_page E L s a p l = (Inr (total_results, page_urls), s1)
              \<and> listing_pages E L a p l (Some cap)
                    [2..total_pages (Some cap) total_results] (page_urls, s1) = (Inr all_urls, s')
              \<and> urls = take (nat cap) all_urls
              \<and> int (length urls) = min cap (int (length all_urls))"
proof -
  obtain r1 s1 where fp: "first_page E L s a p l = (r1, s1)" by (cases "first_page E L s a p l")
  show ?thesis
  proof (cases r1)
    case (Inl e)
    then show ?thesis using assms(2) fp by (simp add: scrape_listing_urls_def)
  next
    case (Inr tu)
    obtain t page_urls where tu: "tu = (t, page_urls)" by (cases tu)
    show ?thesis
    proof (cases "t = 0")
      case True
      then show ?thesis using assms(2) fp Inr tu by (auto simp: scrape_listing_urls_def)
    next
      case False
      obtain r2 s2 where lp:
        "listing_pages E L a p l (Some cap) [2..total_pages (Some cap) t] (page_urls, s1) = (r2, s2)"
        by (cases "listing_pages E L a p l (Some cap) [2..total_pages (Some cap) t] (page_urls, s1)")
      show ?thesis
      proof (cases r2)
        case (Inl e)
        then show ?thesis using assms(2) fp Inr tu False lp by (simp add: scrape_listing_urls_def)
      next
        case all: (Inr all_urls)
        then have res: "urls = take (nat cap) all_urls" "total_results = t" "s' = s2"
          using assms fp Inr tu False lp by (auto simp: scrape_listing_urls_def)
        have "int (length (take (nat cap) all_urls)) = min cap (int (length all_urls))"
          using assms(1) by (simp add: min_def) arith
        then show ?thesis using res fp Inr tu False lp all by auto
      qed
    qed
  qed
qed

lemma total_pages_65: "total_pages (Some 40) 65 = 2" "total_pages None 65 = 3"
  by (simp_all add: total_pages_def ceil_div_def RESULTS_PER_PAGE_def)

text \<open>
  C2, as amended. In a listing traversal with a positive cap: once the accumulated
  URLs have reached the cap, the loop over the pages returns them as they are and the
  state unchanged, so nothing further is fetched. When the traversal returns and the
  site has reported a count other than 0, the returned list is the accumulated list cut
  to the cap, that is of exactly min(cap, accumulated) entries; when the reported
  count is 0 the returned list is empty. With a count of 65 and a cap of 40 the
  traversal plans 2 pages where 3 exist, visits page 2 only after page 1, and returns
  exactly 40 URLs whenever those pages supplied at least 40.
\<close>

theorem listing_traversal_cap:
  assumes "0 < cap"
  shows "(cap \<le> int (length acc)
            \<longrightarrow> listing_pages E L a p l (Some cap) pages (acc, s0) = (Inr acc, s0))
       \<and> (scrape_listing_urls E L s a p l (Some cap) = (Inr (urls, total_results), s')
            \<longrightarrow> (if total_results = 0 then urls = []
                 else \<exists>page_urls s1 all_urls.
                        first_page E L s a p l = (Inr (total_results, page_urls), s1)
                      \<and> listing_pages E L a p l (Some cap)
                            [2..total_pages (Some cap) total_results] (page_urls, s1)
                          = (Inr all_urls, s')
                      \<and> urls = take (nat cap) all_urls
                      \<and> int (length urls) = min cap (int (length all_urls))))
       \<and> total_pages (Some 40) 65 = 2 \<and> total_pages None 65 = 3
       \<and> (scrape_listing_urls E L s a p l (Some 40) = (Inr (urls, 65), s')
            \<longrightarrow> (\<exists>page_urls s1 all_urls.
                        first_page E L s a p l = (Inr (65, page_urls), s1)
                      \<and> listing_pages E L a p l (Some 40) [2] (page_urls, s1) = (Inr all_urls, s')
                      \<and> urls = take 40 all_urls
                      \<and> (40 \<le> length all_urls \<longrightarrow> length urls = 40)))"
proof (intro conjI impI)
  assume "cap \<le> int (length acc)"
  with assms show "listing_pages E L a p l (Some cap) pages (acc, s0) = (Inr acc, s0)"
    by (rule listing_pages_break)
next
  assume "scrape_listing_urls E L s a p l (Some cap) = (Inr (urls, total_results), s')"
  with assms show "if total_results = 0 then urls = []
                 else \<exists>page_urls s1 all_urls.
                        first_page E L s a p l = (Inr (total_results, page_urls), s1)
                      \<and> listing_pages E L a p l (Some cap)
                            [2..total_pages (Some cap) total_results] (page_urls, s1)
                          = (Inr all_urls, s')
                      \<and> urls = take (nat cap) all_urls
                      \<and> int (length urls) = min cap (int (length all_urls))"
    by (rule scrape_listing_urls_result)
next
  show "total_pages (Some 40) 65 = 2" by (rule total_pages_65)
next
  show "total_pages None 65 = 3" by (rule total_pages_65)
next
  assume run: "scrape_listing_urls E L s a p l (Some 40) = (Inr (urls, 65), s')"
  have "(0::int) < 40" by simp
  from scrape_listing_urls_result [OF this run]
  obtain page_urls s1 all_urls where
    "first_page E L s a p l = (Inr (65, page_urls), s1)"
    "listing_pages E L a p l (Some 40) [2..total_pages (Some 40) 65] (page_urls, s1) = (Inr all_urls, s')"
    "urls = take (nat 40) all_urls"
    by auto
  then have "first_page E L s a p l = (Inr (65, page_urls), s1)
           \<and> listing_pages E L a p l (Some 40) [2] (page_urls, s1) = (Inr all_urls, s')
           \<and> urls = take 40 all_urls
           \<and> (40 \<le> length all_urls \<longrightarrow> length urls = 40)"
    by (simp add: total_pages_65)
  then show "\<exists>page_urls s1 all_urls.
                        first_page E L s a p l = (Inr (65, page_urls), s1)
                      \<and> listing_pages E L a p l (Some 40) [2] (page_urls, s1) = (Inr all_urls, s')
                      \<and> urls = take 40 all_urls
                      \<and> (40 \<le> length all_urls \<longrightarrow> length urls = 40)"
    by blast
qed


lemma fetch_page_page_env:
  assumes "\<not> detect_captcha html"
  shows "fetch_page (page_env html) s url
           = (Inr html,
              s\<lparr> draws := (if request_count s > 0 then draws s + 1 else draws s),
                 calls := calls s + 1,
                 events := events s
                   @ [Request (if request_count s > 0
                               then Some (random_uniform (page_env html) (draws s)
                                            REQUEST_DELAY_MIN REQUEST_DELAY_MAX)
                               else None) url,
                      Response_received 200],
                 request_count := request_count s + 1 \<rparr>)"
  using assms
  by (simp add: fetch_page_def MAX_RETRIES_def upt_rec [of 0] session_get_def Let_def
        page_env_def ok_response_def)

lemma rnd_page_env: "rnd (page_env html) k = 1 / 2"
  by (simp add: page_env_def)

lemma pesca_urls:
  "build_listing_url (Some ''PESCA'') None None 1 = Inr pesca_page_1"
  "build_listing_url (Some ''PESCA'') None None 2 = Inr pesca_page_2"
  by (simp_all add: build_listing_url_def listing_parts_def BASE_URL_def str_int_def
        digit_char_def pesca_page_1_def pesca_page_2_def)

lemma summary_count:
  "re_search match_count_at (get_text summary_soup) = Some ''65''" "int_of_digits ''65'' = 65"
  by code_simp+

lemma full_page_parse:
  "parse_result_count full_lib full_page_html = 65"
  "parse_listing_page full_lib full_page_html = replicate 30 card_url"
proof -
  have bs: "BeautifulSoup full_lib full_page_html = full_page_soup"
    by (simp add: full_lib_def lib_of_def)
  have f: "find_numresultados full_page_soup = Some summary_soup" by code_simp
  show "parse_result_count full_lib full_page_html = 65"
    by (simp add: parse_result_count_def Let_def bs f summary_count)
  have "concat (map card_urls
          (soup_find_all (\<lambda>d. is_tag_named ''div'' d \<and> has_class ''cardCompanyBox'' d)
             full_page_soup)) = replicate 30 card_url"
    by code_simp
  then show "parse_listing_page full_lib full_page_html = replicate 30 card_url"
    by (simp add: parse_listing_page_def bs)
qed

lemma full_site_run_eval:
  "fst full_site_run = Inr (replicate 40 card_url, 65)"
  "events (snd full_site_run)
     = [Request None pesca_page_1, Response_received 200,
        Request (Some (15 / 2)) pesca_page_2, Response_received 200]"
proof -
  have nc: "\<not> detect_captcha full_page_html" by (simp add: no_captcha_full_page)
  have "replicate (30 + 10) card_url = replicate 30 card_url @ replicate 10 card_url"
    by (rule replicate_add)
  moreover have "(30::nat) + 10 = 40" by simp
  ultimately have r: "replicate 30 card_url @ replicate 10 card_url = replicate 40 card_url"
    by metis
  have run: "full_site_run
      = (Inr (replicate 40 card_url, 65),
         snd (fetch_page (page_env full_page_html)
                (snd (fetch_page (page_env full_page_html) (EmpresiteScraper ''output'') pesca_page_1))
                pesca_page_2))"
    by (simp add: full_site_run_def scrape_listing_urls_def first_page_def pesca_urls
          fetch_page_page_env [OF nc] full_page_parse total_pages_65 r)
  show "fst full_site_run = Inr (replicate 40 card_url, 65)"
    by (simp add: run)
  show "events (snd full_site_run)
     = [Request None pesca_page_1, Response_received 200,
        Request (Some (15 / 2)) pesca_page_2, Response_received 200]"
    by (simp add: run fetch_page_page_env [OF nc] EmpresiteScraper_def random_uniform_def
          rnd_page_env REQUEST_DELAY_MIN_def REQUEST_DELAY_MAX_def)
qed

lemma small_pages_no_captcha:
  "\<not> detect_captcha zero_page_html" "\<not> detect_captcha short_page_html"
  by code_simp+

lemma zero_page_parse:
  "parse_result_count zero_lib zero_page_html = 0"
  "parse_listing_page zero_lib zero_page_html = [card_url]"
proof -
  have bs: "BeautifulSoup zero_lib zero_page_html = document [card_soup]"
    by (simp add: zero_lib_def lib_of_def)
  have "find_numresultados (document [card_soup]) = None
        \<and> re_search match_found_at (get_text (document [card_soup])) = None"
    by code_simp
  then show "parse_result_count zero_lib zero_page_html = 0"
    by (simp add: parse_result_count_def Let_def bs)
  have "concat (map card_urls
          (soup_find_all (\<lambda>d. is_tag_named ''div'' d \<and> has_class ''cardCompanyBox'' d)
             (document [card_soup]))) = [card_url]"
    by code_simp
  then show "parse_listing_page zero_lib zero_page_html = [card_url]"
    by (simp add: parse_listing_page_def bs)
qed

lemma short_page_parse:
  "parse_result_count short_lib short_page_html = 65"
  "parse_listing_page short_lib short_page_html = [card_url]"
proof -
  have bs: "BeautifulSoup short_lib short_page_html = document [summary_soup, card_soup]"
    by (simp add: short_lib_def lib_of_def)
  have f: "find_numresultados (document [summary_soup, card_soup]) = Some summary_soup"
    by code_simp
  show "parse_result_count short_lib short_page_html = 65"
    by (simp add: parse_result_count_def Let_def bs f summary_count)
  have "concat (map card_urls
          (soup_find_all (\<lambda>d. is_tag_named ''div'' d \<and> has_class ''cardCompanyBox'' d)
             (document [summary_soup, card_soup]))) = [card_url]"
    by code_simp
  then show "parse_listing_page short_lib short_page_html = [card_url]"
    by (simp add: parse_listing_page_def bs)
qed

lemma pesca_pages_differ: "pesca_page_2 \<noteq> pesca_page_1"
  by code_simp

text \<open>
  C2 as the specification states it fails. On a site whose page 1 holds one card and
  no result count, the traversal with cap 40 has collected one URL and returns none.
  On a site that reports 65 results, holds one card on page 1 and answers 404 for page
  2, the traversal with cap 40 returns one URL, not 40.
\<close>

theorem listing_traversal_cap_counterexample:
  "fst zero_count_run = Inr ([], 0)
   \<and> parse_listing_page zero_lib zero_page_html = [card_url]
   \<and> fst short_site_run = Inr ([card_url], 65)"
proof -
  have z: "fst zero_count_run = Inr ([], 0)"
    by (simp add: zero_count_run_def scrape_listing_urls_def first_page_def pesca_urls
          fetch_page_page_env [OF small_pages_no_captcha(1)] zero_page_parse)
  have s: "fst short_site_run = Inr ([card_url], 65)"
    using small_pages_no_captcha(2)
    by (simp add: short_site_run_def scrape_listing_urls_def first_page_def pesca_urls
          short_page_parse total_pages_65 pesca_pages_differ
          fetch_page_def MAX_RETRIES_def upt_rec [of 0] session_get_def Let_def
          first_page_only_env_def ok_response_def not_found_response_def)
  from z zero_page_parse(2) s show ?thesis by simp
qed

theorem listing_traversal_cap_witness:
  "fst full_site_run = Inr (replicate 40 card_url, 65)
   \<and> length (replicate 40 card_url) = 40
   \<and> events (snd full_site_run)
       = [Request None pesca_page_1, Response_received 200,
          Request (Some (15 / 2)) pesca_page_2, Response_received 200]
   \<and> listing_pages (page_env full_page_html) full_lib (Some ''PESCA'') None None (Some 40) [3]
        (replicate 40 card_url, snd full_site_run)
       = (Inr (replicate 40 card_url), snd full_site_run)"
proof -
  have c: "(0::int) < 40" by simp
  note th = listing_traversal_cap
              [OF c, where acc = "replicate 40 card_url" and pages = "[3]"
                 and ?s0.0 = "snd full_site_run" and E = "page_env full_page_html"
                 and L = full_lib and a = "Some ''PESCA''" and p = None and l = None]
  have "(40::int) \<le> int (length (replicate 40 card_url))" by simp
  with th have b: "listing_pages (page_env full_page_html) full_lib (Some ''PESCA'') None None
                     (Some 40) [3] (replicate 40 card_url, snd full_site_run)
                   = (Inr (replicate 40 card_url), snd full_site_run)"
    by blast
  from b full_site_run_eval show ?thesis by simp
qed

end
